theory Spec2Isabelle
  imports Complex_Main "HOL-Library.Sublist"
begin

section \<open>The prompt optimizer service (optimizer/api.py)\<close>

text \<open>
  A shallow embedding of the three endpoints of the service: \<open>optimize_prompt\<close>,
  \<open>get_prompt\<close> and \<open>promote_rollout\<close>, together with the request models they are
  declared over.  The Langfuse client \<open>lf\<close> is an external collaborator: it is a
  parameter of every endpoint, a pair of operations over a registry state that either
  return a prompt object or raise.
\<close>

subsection \<open>Python strings\<close>

text \<open>
  A Python \<open>str\<close> is a sequence of code points.  The model covers the strings whose code
  points are below 256 (Latin-1), one \<open>char\<close> per code point.  On these
  \<open>str.lower()\<close> maps \<open>A\<close>..\<open>Z\<close> and the accented capitals U+00C0..U+00DE (the
  multiplication sign U+00D7 apart) to the code point 32 above, and keeps every other
  code point.
\<close>

definition lower_char :: "char \<Rightarrow> char" where
  "lower_char c =
     (let n = (of_char c :: nat)
      in if (65 \<le> n \<and> n \<le> 90) \<or> (192 \<le> n \<and> n \<le> 222 \<and> n \<noteq> 215)
         then char_of (n + 32) else c)"

definition lower :: "string \<Rightarrow> string" where
  "lower s = map lower_char s"

text \<open>\<open>sub in s\<close> on strings: \<open>sub\<close> occurs in \<open>s\<close> as a contiguous run.\<close>

fun str_in :: "string \<Rightarrow> string \<Rightarrow> bool" where
  "str_in sub [] = (sub = [])"
| "str_in sub (c # cs) = (prefix sub (c # cs) \<or> str_in sub cs)"

text \<open>
  \<open>s.replace(old, new)\<close>: every occurrence of \<open>old\<close>, found from the left and not
  overlapping an earlier one, becomes \<open>new\<close>.  With an empty \<open>old\<close> Python puts
  \<open>new\<close> before every character and at the end.
\<close>

function replace :: "string \<Rightarrow> string \<Rightarrow> string \<Rightarrow> string" where
  "replace s old new =
     (if old = [] then new @ concat (map (\<lambda>c. c # new) s)
      else if s = [] then []
      else if prefix old s then new @ replace (drop (length old) s) old new
      else hd s # replace (tl s) old new)"
  by pat_completeness auto
termination
  by (relation "measure (\<lambda>(s, old, new). length s)") auto

subsection \<open>Values of type \<open>Any\<close>\<close>

text \<open>
  \<open>PromptDraft.prompt\<close> is declared \<open>Any\<close>: whatever the JSON body holds.  Floats are
  only stored and copied by the service, never computed with, so a float is modelled by
  the real number its literal denotes.
\<close>

datatype json =
    JNull
  | JBool bool
  | JInt int
  | JFloat real
  | JStr string
  | JList "json list"
  | JDict "(string \<times> json) list"

text \<open>\<open>isinstance(v, str)\<close>\<close>

fun isinstance_str :: "json \<Rightarrow> bool" where
  "isinstance_str (JStr s) = True"
| "isinstance_str v = False"

text \<open>\<open>str(v)\<close> inside an f-string for an \<open>Optional[str]\<close>.\<close>

fun str_optional :: "string option \<Rightarrow> string" where
  "str_optional None = ''None''"
| "str_optional (Some s) = s"

subsection \<open>Request and response models\<close>

record PromptConfig =
  temperature :: "real option"
  max_tokens :: "int option"
  model :: "string option"

record PromptDraft =
  draft_type :: string
  draft_prompt :: json
  draft_config :: "PromptConfig option"

record RolloutConfig =
  strategy :: string
  percentage :: int
  evaluation_metric :: string
  threshold :: real

record OptimizeRequest =
  req_name :: string
  current_prompt :: "string option"
  draft :: PromptDraft
  objective :: string
  commit_message :: "string option"
  req_labels :: "string list"
  rollout :: "RolloutConfig option"

record RolloutPhase =
  phase_percentage :: int
  phase_duration :: string
  phase_labels :: "string list"

record RolloutPlan =
  plan_strategy :: string
  phases :: "RolloutPhase list"
  plan_evaluation_metric :: string
  plan_threshold :: real
  rollback_on_failure :: bool

record OptimizeResponse =
  resp_version :: int
  resp_labels :: "string list"
  resp_optimized_prompt :: json
  resp_rollout_plan :: "RolloutPlan option"
  resp_metrics :: "(string \<times> real) list option"

text \<open>
  What an endpoint can fail with: pydantic's \<open>ValidationError\<close> (with the field it is
  about), raised while the request model is built, and FastAPI's
  \<open>HTTPException(status_code, detail)\<close>, raised by the handlers.
\<close>

datatype error =
    ValidationError string
  | HTTPException int string

text \<open>
  \<open>percentage: int = Field(default=10, ge=0, le=100)\<close> is the only constraint on a value
  that the models declare; every other field takes any value of its type.
\<close>

definition validate_RolloutConfig :: "RolloutConfig \<Rightarrow> error + RolloutConfig" where
  "validate_RolloutConfig c =
     (if 0 \<le> percentage c \<and> percentage c \<le> 100 then Inr c
      else Inl (ValidationError ''rollout.percentage''))"

definition validate_OptimizeRequest :: "OptimizeRequest \<Rightarrow> error + OptimizeRequest" where
  "validate_OptimizeRequest r =
     (case rollout r of
        None \<Rightarrow> Inr r
      | Some c \<Rightarrow>
          (case validate_RolloutConfig c of
             Inl e \<Rightarrow> Inl e
           | Inr c' \<Rightarrow> Inr r))"

subsection \<open>The Langfuse client\<close>

text \<open>
  The keyword arguments of \<open>lf.create_prompt(**prompt_data)\<close>; \<open>config\<close> is passed only
  when the handler has set it, as a dict in insertion order.
\<close>

record create_prompt_kwargs =
  pd_name :: string
  pd_type :: string
  pd_prompt :: json
  pd_labels :: "string list"
  pd_config :: "(string \<times> json) list option"

text \<open>The prompt object the client returns, with the attributes the handlers read.\<close>

record prompt_client =
  pc_name :: string
  pc_version :: int
  pc_prompt :: json
  pc_config :: json
  pc_labels :: "string list"

text \<open>
  An exception raised by the client: that no prompt matches, or any other failure
  (network, authentication, conflict); \<open>str(e)\<close> is its message.
\<close>

datatype lf_error =
    NotFound string
  | BackendFailure string

fun str_error :: "lf_error \<Rightarrow> string" where
  "str_error (NotFound m) = m"
| "str_error (BackendFailure m) = m"

record 'st Langfuse =
  lf_create_prompt :: "create_prompt_kwargs \<Rightarrow> 'st \<Rightarrow> (lf_error + prompt_client) \<times> 'st"
  lf_get_prompt :: "string \<Rightarrow> string option \<Rightarrow> 'st \<Rightarrow> (lf_error + prompt_client) \<times> 'st"

subsection \<open>The optimize endpoint\<close>

definition clarity_suffix :: string where
  "clarity_suffix = [CHR 0x0A, CHR 0x0A] @ ''Please provide clear, structured responses.''"

text \<open>
  Lines 113 to 123: the simulated optimization.  The objective is matched in lower case,
  clarity first, and a branch changes the prompt only when it is a \<open>str\<close>.
\<close>

definition optimized_prompt :: "OptimizeRequest \<Rightarrow> json" where
  "optimized_prompt request =
     (let p = draft_prompt (draft request); obj = lower (objective request)
      in if str_in ''clarity'' obj then
           (case p of
              JStr s \<Rightarrow> JStr (s @ clarity_suffix)
            | _ \<Rightarrow> p)
         else if str_in ''concise'' obj \<or> str_in ''reduce tokens'' obj then
           (case p of
              JStr s \<Rightarrow> JStr (replace (replace s ''Please '' '''') '' very '' '' '')
            | _ \<Rightarrow> p)
         else p)"

text \<open>Lines 126 to 138: the rollout plan, when the request has a rollout configuration.\<close>

definition rollout_plan :: "OptimizeRequest \<Rightarrow> RolloutPlan option" where
  "rollout_plan request =
     (case rollout request of
        None \<Rightarrow> None
      | Some c \<Rightarrow>
          Some \<lparr>plan_strategy = strategy c,
                phases =
                  [\<lparr>phase_percentage = percentage c, phase_duration = ''1h'',
                     phase_labels = [''canary'']\<rparr>,
                   \<lparr>phase_percentage = 50, phase_duration = ''4h'',
                     phase_labels = [''staging'']\<rparr>,
                   \<lparr>phase_percentage = 100, phase_duration = ''stable'',
                     phase_labels = req_labels request\<rparr>],
                plan_evaluation_metric = evaluation_metric c,
                plan_threshold = threshold c,
                rollback_on_failure = True\<rparr>)"

text \<open>\<open>PromptConfig.dict()\<close>: the three fields in declaration order.\<close>

definition config_dict :: "PromptConfig \<Rightarrow> (string \<times> json) list" where
  "config_dict c =
     [(''temperature'', case temperature c of None \<Rightarrow> JNull | Some t \<Rightarrow> JFloat t),
      (''max_tokens'', case max_tokens c of None \<Rightarrow> JNull | Some n \<Rightarrow> JInt n),
      (''model'', case model c of None \<Rightarrow> JNull | Some m \<Rightarrow> JStr m)]"

text \<open>
  Lines 141 to 154.  \<open>if request.commit_message\<close> is the truth value of an optional
  string: false for \<open>None\<close> and for the empty string.  A model instance is always true.
\<close>

definition prompt_data :: "OptimizeRequest \<Rightarrow> create_prompt_kwargs" where
  "prompt_data request =
     \<lparr>pd_name = req_name request,
      pd_type = draft_type (draft request),
      pd_prompt = optimized_prompt request,
      pd_labels = req_labels request,
      pd_config =
        (case commit_message request of
           Some (m # ms) \<Rightarrow>
             Some ((''commitMessage'', JStr (m # ms)) #
                   (case draft_config (draft request) of
                      Some c \<Rightarrow> config_dict c
                    | None \<Rightarrow> []))
         | _ \<Rightarrow>
             (case draft_config (draft request) of
                Some c \<Rightarrow> Some (config_dict c)
              | None \<Rightarrow> None))\<rparr>"

definition metrics :: "(string \<times> real) list" where
  "metrics =
     [(''token_reduction'', 0.15),
      (''clarity_score'', 0.92),
      (''coherence_score'', 0.89),
      (''optimization_iterations'', 3)]"

text \<open>
  The handler.  Nothing before the call of the client can raise, so the only failure is
  the client's, re-raised as a 500 by the inner \<open>except\<close>; the outer \<open>except\<close> lets an
  \<open>HTTPException\<close> through.
\<close>

definition optimize_prompt ::
  "'st Langfuse \<Rightarrow> OptimizeRequest \<Rightarrow> 'st \<Rightarrow> (error + OptimizeResponse) \<times> 'st" where
  "optimize_prompt lf request st =
     (case lf_create_prompt lf (prompt_data request) st of
        (Inr created, st') \<Rightarrow>
          (Inr \<lparr>resp_version = pc_version created,
                resp_labels = req_labels request,
                resp_optimized_prompt = optimized_prompt request,
                resp_rollout_plan = rollout_plan request,
                resp_metrics = Some metrics\<rparr>, st')
      | (Inl langfuse_error, st') \<Rightarrow>
          (Inl (HTTPException 500
                 (''Failed to store prompt in Langfuse: '' @ str_error langfuse_error)), st'))"

text \<open>
  \<open>@app.post("/optimize")\<close>: the body is validated against \<open>OptimizeRequest\<close> first, and
  the handler runs only on a request that passed.
\<close>

definition post_optimize ::
  "'st Langfuse \<Rightarrow> OptimizeRequest \<Rightarrow> 'st \<Rightarrow> (error + OptimizeResponse) \<times> 'st" where
  "post_optimize lf body st =
     (case validate_OptimizeRequest body of
        Inl e \<Rightarrow> (Inl e, st)
      | Inr request \<Rightarrow> optimize_prompt lf request st)"

subsection \<open>The get and promote endpoints\<close>

record PromptView =
  view_name :: string
  view_version :: int
  view_prompt :: json
  view_config :: json
  view_labels :: "string list"

definition get_prompt ::
  "'st Langfuse \<Rightarrow> string \<Rightarrow> string option \<Rightarrow> 'st \<Rightarrow> (error + PromptView) \<times> 'st" where
  "get_prompt lf name label st =
     (case lf_get_prompt lf name label st of
        (Inr prompt, st') \<Rightarrow>
          (Inr \<lparr>view_name = name,
                view_version = pc_version prompt,
                view_prompt = pc_prompt prompt,
                view_config = pc_config prompt,
                view_labels = pc_labels prompt\<rparr>, st')
      | (Inl e, st') \<Rightarrow>
          (Inl (HTTPException 404
                 (''Prompt not found: '' @ name @ '' (label: '' @ str_optional label @ '')'')),
           st'))"

record Promotion =
  message :: string
  promoted_version :: int
  promoted_labels :: "string list"

definition promote_rollout ::
  "'st Langfuse \<Rightarrow> string \<Rightarrow> string \<Rightarrow> string \<Rightarrow> 'st \<Rightarrow> (error + Promotion) \<times> 'st" where
  "promote_rollout lf name from_label to_label st =
     (case lf_get_prompt lf name (Some from_label) st of
        (Inr prompt, st') \<Rightarrow>
          (Inr \<lparr>message =
                  ''Prompt '' @ name @ '' promoted from '' @ from_label @ '' to '' @ to_label,
                promoted_version = pc_version prompt,
                promoted_labels = [to_label]\<rparr>, st')
      | (Inl e, st') \<Rightarrow>
          (Inl (HTTPException 500 (''Failed to promote prompt: '' @ str_error e)), st'))"

subsection \<open>A registry to run the endpoints against\<close>

text \<open>
  Modelled from the spec: the registry behind the client is an external service, not
  part of the repository.  This in-memory stand-in follows the adapter operations of the
  specification: creating a version assigns the next version number of the name, and
  getting by label returns the latest version of the name carrying the label or raises
  not-found (no label means \<open>production\<close>); while the registry is not \<open>online\<close>, every
  call raises a backend failure.  It only serves to run the endpoints on concrete inputs.
\<close>

record registry =
  online :: bool
  versions :: "prompt_client list"

definition memory_create_prompt ::
  "create_prompt_kwargs \<Rightarrow> registry \<Rightarrow> (lf_error + prompt_client) \<times> registry" where
  "memory_create_prompt pd r =
     (if \<not> online r then (Inl (BackendFailure ''connection refused''), r)
      else
        (let created =
               \<lparr>pc_name = pd_name pd,
                pc_version =
                  1 + int (length (filter (\<lambda>v. pc_name v = pd_name pd) (versions r))),
                pc_prompt = pd_prompt pd,
                pc_config = (case pd_config pd of None \<Rightarrow> JDict [] | Some c \<Rightarrow> JDict c),
                pc_labels = pd_labels pd\<rparr>
         in (Inr created, r\<lparr>versions := versions r @ [created]\<rparr>)))"

definition memory_get_prompt ::
  "string \<Rightarrow> string option \<Rightarrow> registry \<Rightarrow> (lf_error + prompt_client) \<times> registry" where
  "memory_get_prompt name label r =
     (if \<not> online r then (Inl (BackendFailure ''connection refused''), r)
      else
        (let l = (case label of None \<Rightarrow> ''production'' | Some l \<Rightarrow> l)
         in case find (\<lambda>v. pc_name v = name \<and> l \<in> set (pc_labels v)) (rev (versions r)) of
              None \<Rightarrow> (Inl (NotFound (''Prompt not found: '' @ name)), r)
            | Some v \<Rightarrow> (Inr v, r)))"

definition memory_lf :: "registry Langfuse" where
  "memory_lf =
     \<lparr>lf_create_prompt = memory_create_prompt, lf_get_prompt = memory_get_prompt\<rparr>"

section \<open>String matching\<close>

text \<open>
  The \<open>in\<close> test is the contiguous-sublist relation, and lowering a string lowers each
  of its parts, so an objective with the keyword somewhere in it, in any case, matches.
\<close>

lemma str_in_sublist: "str_in sub s = sublist sub s"
  by (induction s) (simp_all add: sublist_Cons_right)

lemma str_in_infix: "str_in sub (pre @ sub @ post)"
  by (simp add: str_in_sublist)

lemma lower_append: "lower (a @ b) = lower a @ lower b"
  by (simp add: lower_def)

lemma str_in_lower:
  assumes "s = pre @ mid @ post" and "lower mid = sub"
  shows "str_in sub (lower s)"
proof -
  have "lower s = lower pre @ sub @ lower post"
    using assms by (simp add: lower_append)
  then show ?thesis
    by (simp add: str_in_infix)
qed

lemma lower_CLARITY: "lower ''CLARITY'' = ''clarity''"
  by code_simp

lemma lower_keywords:
  "lower ''Clarity'' = ''clarity''" "lower ''reduce tokens'' = ''reduce tokens''"
  "lower ''reduce tokens, improve clarity'' = ''reduce tokens, improve clarity''"
  "lower ''improve clarity'' = ''improve clarity''"
  by code_simp+

section \<open>The optimization step\<close>

text \<open>
  C1.  For a draft whose content is the string \<open>s\<close> and an objective that contains
  \<open>clarity\<close> in any mix of upper and lower case (a part \<open>mid\<close> of the objective
  lowers to \<open>clarity\<close>), the optimized prompt is \<open>s\<close> followed by the fixed clarifying
  suffix.  The declared draft type plays no part.
\<close>

theorem clarity_appends_suffix:
  assumes "draft_prompt (draft request) = JStr s"
    and "objective request = pre @ mid @ post"
    and "lower mid = ''clarity''"
  shows "optimized_prompt request = JStr (s @ clarity_suffix)"
proof -
  have "str_in ''clarity'' (lower (objective request))"
    using assms(2,3) by (rule str_in_lower)
  with assms(1) show ?thesis
    by (simp add: optimized_prompt_def)
qed

text \<open>The theorem at the objective \<open>Improve CLARITY now\<close>.\<close>

theorem clarity_appends_suffix_witness:
  "optimized_prompt
     \<lparr>req_name = ''summary'', current_prompt = None,
      draft = \<lparr>draft_type = ''text'', draft_prompt = JStr ''Summarise the text.'',
               draft_config = None\<rparr>,
      objective = ''Improve CLARITY now'', commit_message = None,
      req_labels = [''staging''], rollout = None\<rparr>
   = JStr ''Summarise the text.\<newline>\<newline>Please provide clear, structured responses.''"
  using clarity_appends_suffix [of _ "''Summarise the text.''" "''Improve ''" "''CLARITY''" "'' now''"]
  by (simp add: lower_CLARITY clarity_suffix_def)

text \<open>
  C4, as stated, fails.  A chat draft whose content is a message list goes through the
  engine unchanged: under the objective \<open>reduce tokens\<close> the message content
  \<open>Please help.\<close> stays, although the conciseness rule turns that string into
  \<open>help.\<close>.  And the transformation is not tied to the declared type: a draft of type
  \<open>chat\<close> whose content is a string is transformed.
\<close>

theorem chat_messages_untouched_counterexample:
  "optimized_prompt
     \<lparr>req_name = ''greeting'', current_prompt = None,
      draft = \<lparr>draft_type = ''chat'',
               draft_prompt =
                 JList [JDict [(''role'', JStr ''user''), (''content'', JStr ''Please help.'')]],
               draft_config = None\<rparr>,
      objective = ''reduce tokens'', commit_message = None,
      req_labels = [''staging''], rollout = None\<rparr>
   = JList [JDict [(''role'', JStr ''user''), (''content'', JStr ''Please help.'')]]
   \<and> replace (replace ''Please help.'' ''Please '' '''') '' very '' '' '' = ''help.''
   \<and> optimized_prompt
     \<lparr>req_name = ''greeting'', current_prompt = None,
      draft = \<lparr>draft_type = ''chat'', draft_prompt = JStr ''Please help.'',
               draft_config = None\<rparr>,
      objective = ''reduce tokens'', commit_message = None,
      req_labels = [''staging''], rollout = None\<rparr>
   = JStr ''help.''"
  by (simp add: optimized_prompt_def lower_keywords)

text \<open>
  C4, amended.  The engine looks at the shape of the content, never at the declared
  type: changing \<open>draft.type\<close> changes nothing, and content that is not a string (the
  message list of a chat draft) is returned as it is, so that roles, order and message
  contents all stay.
\<close>

theorem transformation_by_content_shape:
  "optimized_prompt (request\<lparr>draft := (draft request)\<lparr>draft_type := t\<rparr>\<rparr>)
     = optimized_prompt request
   \<and> (\<not> isinstance_str (draft_prompt (draft request)) \<longrightarrow>
        optimized_prompt request = draft_prompt (draft request))"
  by (cases "draft_prompt (draft request)") (simp_all add: optimized_prompt_def Let_def)

text \<open>
  The amended statement at a chat draft of two messages.
\<close>

theorem transformation_by_content_shape_witness:
  "optimized_prompt
     \<lparr>req_name = ''greeting'', current_prompt = None,
      draft = \<lparr>draft_type = ''chat'',
               draft_prompt =
                 JList [JDict [(''role'', JStr ''system''), (''content'', JStr ''Be very kind.'')],
                        JDict [(''role'', JStr ''user''), (''content'', JStr ''Please help.'')]],
               draft_config = None\<rparr>,
      objective = ''improve clarity'', commit_message = None,
      req_labels = [''staging''], rollout = None\<rparr>
   = JList [JDict [(''role'', JStr ''system''), (''content'', JStr ''Be very kind.'')],
            JDict [(''role'', JStr ''user''), (''content'', JStr ''Please help.'')]]"
  using transformation_by_content_shape
    [where t = "''chat''" and request = "\<lparr>req_name = ''greeting'', current_prompt = None,
      draft = \<lparr>draft_type = ''chat'',
               draft_prompt =
                 JList [JDict [(''role'', JStr ''system''), (''content'', JStr ''Be very kind.'')],
                        JDict [(''role'', JStr ''user''), (''content'', JStr ''Please help.'')]],
               draft_config = None\<rparr>,
      objective = ''improve clarity'', commit_message = None,
      req_labels = [''staging''], rollout = None\<rparr>"]
  by simp

text \<open>
  C10.  When the objective contains \<open>clarity\<close> and also a conciseness keyword
  (\<open>concise\<close> or \<open>reduce tokens\<close>), each in any case, only the clarity branch runs:
  string content gets the suffix appended to the content as it was, with no substitution
  applied to it, and any other content is returned unchanged.
\<close>

theorem clarity_takes_precedence:
  assumes "objective request = pre @ mid @ post" and "lower mid = ''clarity''"
    and "objective request = pre' @ mid' @ post'"
    and "lower mid' = ''concise'' \<or> lower mid' = ''reduce tokens''"
  shows "(\<forall>s. draft_prompt (draft request) = JStr s \<longrightarrow>
            optimized_prompt request = JStr (s @ clarity_suffix))
     \<and> (\<not> isinstance_str (draft_prompt (draft request)) \<longrightarrow>
            optimized_prompt request = draft_prompt (draft request))"
proof -
  have "str_in ''clarity'' (lower (objective request))"
    using assms(1,2) by (rule str_in_lower)
  then show ?thesis
    by (cases "draft_prompt (draft request)") (simp_all add: optimized_prompt_def Let_def)
qed

text \<open>
  The theorem at an objective naming both intents and a prompt that both substitutions
  would change.
\<close>

theorem clarity_takes_precedence_witness:
  "optimized_prompt
     \<lparr>req_name = ''greeting'', current_prompt = None,
      draft = \<lparr>draft_type = ''text'', draft_prompt = JStr ''Please be very brief.'',
               draft_config = None\<rparr>,
      objective = ''reduce tokens, improve Clarity'', commit_message = None,
      req_labels = [''staging''], rollout = None\<rparr>
   = JStr ''Please be very brief.\<newline>\<newline>Please provide clear, structured responses.''"
  using clarity_takes_precedence
    [where pre = "''reduce tokens, improve ''" and mid = "''Clarity''" and post = "''''"
       and pre' = "''''" and mid' = "''reduce tokens''" and post' = "'', improve Clarity''"
       and request = "\<lparr>req_name = ''greeting'', current_prompt = None,
      draft = \<lparr>draft_type = ''text'', draft_prompt = JStr ''Please be very brief.'',
               draft_config = None\<rparr>,
      objective = ''reduce tokens, improve Clarity'', commit_message = None,
      req_labels = [''staging''], rollout = None\<rparr>"]
  by (simp add: lower_keywords clarity_suffix_def)

section \<open>The rollout plan\<close>

text \<open>
  C2.  For a request with rollout configuration \<open>c\<close>, valid or not, the plan has
  exactly three phases, in this order: \<open>c\<close>'s percentage labelled \<open>canary\<close>, 50
  labelled \<open>staging\<close>, and 100 with duration \<open>stable\<close> labelled with the labels of
  the request; \<open>rollback_on_failure\<close> is true, and metric and threshold are those of
  \<open>c\<close>.
\<close>

theorem rollout_plan_three_phases:
  assumes "rollout request = Some c"
  shows "\<exists>plan. rollout_plan request = Some plan
     \<and> map phase_percentage (phases plan) = [percentage c, 50, 100]
     \<and> map phase_labels (phases plan) = [[''canary''], [''staging''], req_labels request]
     \<and> phase_duration (last (phases plan)) = ''stable''
     \<and> rollback_on_failure plan
     \<and> plan_evaluation_metric plan = evaluation_metric c
     \<and> plan_threshold plan = threshold c"
  using assms by (simp add: rollout_plan_def)

text \<open>
  The theorem at a canary configuration starting at 10 percent.
\<close>

theorem rollout_plan_three_phases_witness:
  "\<exists>plan.
     rollout_plan
       \<lparr>req_name = ''greeting'', current_prompt = None,
        draft = \<lparr>draft_type = ''text'', draft_prompt = JStr ''Hello'', draft_config = None\<rparr>,
        objective = ''improve clarity'', commit_message = None,
        req_labels = [''production'', ''eu''],
        rollout = Some \<lparr>strategy = ''canary'', percentage = 10,
                        evaluation_metric = ''success_rate'', threshold = 0.95\<rparr>\<rparr>
     = Some plan
     \<and> map phase_percentage (phases plan) = [10, 50, 100]
     \<and> map phase_labels (phases plan) = [[''canary''], [''staging''], [''production'', ''eu'']]
     \<and> phase_duration (last (phases plan)) = ''stable''
     \<and> rollback_on_failure plan
     \<and> plan_evaluation_metric plan = ''success_rate''
     \<and> plan_threshold plan = 0.95"
  using rollout_plan_three_phases
    [of "\<lparr>req_name = ''greeting'', current_prompt = None,
        draft = \<lparr>draft_type = ''text'', draft_prompt = JStr ''Hello'', draft_config = None\<rparr>,
        objective = ''improve clarity'', commit_message = None,
        req_labels = [''production'', ''eu''],
        rollout = Some \<lparr>strategy = ''canary'', percentage = 10,
                        evaluation_metric = ''success_rate'', threshold = 0.95\<rparr>\<rparr>"
        "\<lparr>strategy = ''canary'', percentage = 10,
                        evaluation_metric = ''success_rate'', threshold = 0.95\<rparr>"]
  by simp

text \<open>
  C3, as stated, fails.  The configuration with percentage 80 is valid, and its plan
  runs 80, 50, 100: the phases before the final one decrease.
\<close>

theorem phases_decrease_counterexample:
  "validate_RolloutConfig
     \<lparr>strategy = ''gradual'', percentage = 80,
      evaluation_metric = ''success_rate'', threshold = 0.95\<rparr>
   = Inr \<lparr>strategy = ''gradual'', percentage = 80,
          evaluation_metric = ''success_rate'', threshold = 0.95\<rparr>
   \<and> map_option (\<lambda>plan. map phase_percentage (phases plan))
       (rollout_plan
         \<lparr>req_name = ''greeting'', current_prompt = None,
          draft = \<lparr>draft_type = ''text'', draft_prompt = JStr ''Hello'', draft_config = None\<rparr>,
          objective = ''improve clarity'', commit_message = None,
          req_labels = [''production''],
          rollout = Some \<lparr>strategy = ''gradual'', percentage = 80,
                          evaluation_metric = ''success_rate'', threshold = 0.95\<rparr>\<rparr>)
     = Some [80, 50, 100]
   \<and> \<not> sorted (butlast [80, 50, 100 :: int])"
  by (simp add: validate_RolloutConfig_def rollout_plan_def)

text \<open>
  C3, amended.  The phase percentages of the plan are, in order, the initial percentage,
  50 and 100.  So the final phase, the \<open>stable\<close> one, is at 100, and the percentages
  are non-decreasing, with or without the final phase, exactly when the initial
  percentage is at most 50.  For a valid configuration every phase lies between 0 and
  100.
\<close>

theorem phases_sorted_iff:
  assumes "rollout request = Some c" and "rollout_plan request = Some plan"
  shows "map phase_percentage (phases plan) = [percentage c, 50, 100]
     \<and> (sorted (map phase_percentage (phases plan)) \<longleftrightarrow> percentage c \<le> 50)
     \<and> (sorted (butlast (map phase_percentage (phases plan))) \<longleftrightarrow> percentage c \<le> 50)
     \<and> last (map phase_percentage (phases plan)) = 100
     \<and> phase_duration (last (phases plan)) = ''stable''
     \<and> (0 \<le> percentage c \<and> percentage c \<le> 100 \<longrightarrow>
          (\<forall>p \<in> set (phases plan). 0 \<le> phase_percentage p \<and> phase_percentage p \<le> 100))"
  using assms by (auto simp: rollout_plan_def)

text \<open>
  The amended statement at the initial percentage 10.
\<close>

theorem phases_sorted_iff_witness:
  "map phase_percentage
     (phases \<lparr>plan_strategy = ''gradual'',
              phases = [\<lparr>phase_percentage = 10, phase_duration = ''1h'',
                           phase_labels = [''canary'']\<rparr>,
                        \<lparr>phase_percentage = 50, phase_duration = ''4h'',
                           phase_labels = [''staging'']\<rparr>,
                        \<lparr>phase_percentage = 100, phase_duration = ''stable'',
                           phase_labels = [''production'']\<rparr>],
              plan_evaluation_metric = ''success_rate'', plan_threshold = 0.95,
              rollback_on_failure = True\<rparr>)
   = [10, 50, 100]
   \<and> (sorted (map phase_percentage
       (phases \<lparr>plan_strategy = ''gradual'',
                phases = [\<lparr>phase_percentage = 10, phase_duration = ''1h'',
                             phase_labels = [''canary'']\<rparr>,
                          \<lparr>phase_percentage = 50, phase_duration = ''4h'',
                             phase_labels = [''staging'']\<rparr>,
                          \<lparr>phase_percentage = 100, phase_duration = ''stable'',
                             phase_labels = [''production'']\<rparr>],
                plan_evaluation_metric = ''success_rate'', plan_threshold = 0.95,
                rollback_on_failure = True\<rparr>)) \<longleftrightarrow> (10::int) \<le> 50)
   \<and> rollout_plan
       \<lparr>req_name = ''greeting'', current_prompt = None,
        draft = \<lparr>draft_type = ''text'', draft_prompt = JStr ''Hello'', draft_config = None\<rparr>,
        objective = ''improve clarity'', commit_message = None,
        req_labels = [''production''],
        rollout = Some \<lparr>strategy = ''gradual'', percentage = 10,
                        evaluation_metric = ''success_rate'', threshold = 0.95\<rparr>\<rparr>
     = Some \<lparr>plan_strategy = ''gradual'',
             phases = [\<lparr>phase_percentage = 10, phase_duration = ''1h'',
                          phase_labels = [''canary'']\<rparr>,
                       \<lparr>phase_percentage = 50, phase_duration = ''4h'',
                          phase_labels = [''staging'']\<rparr>,
                       \<lparr>phase_percentage = 100, phase_duration = ''stable'',
                          phase_labels = [''production'']\<rparr>],
             plan_evaluation_metric = ''success_rate'', plan_threshold = 0.95,
             rollback_on_failure = True\<rparr>"
proof -
  let ?c = "\<lparr>strategy = ''gradual'', percentage = 10,
             evaluation_metric = ''success_rate'', threshold = 0.95\<rparr>"
  let ?r = "\<lparr>req_name = ''greeting'', current_prompt = None,
        draft = \<lparr>draft_type = ''text'', draft_prompt = JStr ''Hello'', draft_config = None\<rparr>,
        objective = ''improve clarity'', commit_message = None,
        req_labels = [''production''], rollout = Some ?c\<rparr>"
  let ?plan = "\<lparr>plan_strategy = ''gradual'',
             phases = [\<lparr>phase_percentage = 10, phase_duration = ''1h'',
                          phase_labels = [''canary'']\<rparr>,
                       \<lparr>phase_percentage = 50, phase_duration = ''4h'',
                          phase_labels = [''staging'']\<rparr>,
                       \<lparr>phase_percentage = 100, phase_duration = ''stable'',
                          phase_labels = [''production'']\<rparr>],
             plan_evaluation_metric = ''success_rate'', plan_threshold = 0.95,
             rollback_on_failure = True\<rparr>"
  have h1: "rollout ?r = Some ?c" by simp
  have h2: "rollout_plan ?r = Some ?plan" by (simp add: rollout_plan_def)
  from phases_sorted_iff [OF h1 h2] h2 show ?thesis by simp
qed

section \<open>The optimize endpoint, end to end\<close>

text \<open>
  C5.  For the greeting request, whatever the client and the state of the registry: the
  client's \<open>create_prompt\<close> is called once, with the content \<open>help.\<close>; when it
  returns a prompt, the response carries that prompt's version, the content \<open>help.\<close>
  and the metrics, which have the key \<open>token_reduction\<close>; when it raises, the endpoint
  fails with a 500.
\<close>

theorem greeting_end_to_end:
  "post_optimize lf
     \<lparr>req_name = ''greeting'', current_prompt = None,
      draft = \<lparr>draft_type = ''text'', draft_prompt = JStr ''Please help.'',
               draft_config = None\<rparr>,
      objective = ''reduce tokens'', commit_message = None,
      req_labels = [''staging''], rollout = None\<rparr> st
   = (case lf_create_prompt lf
             \<lparr>pd_name = ''greeting'', pd_type = ''text'', pd_prompt = JStr ''help.'',
              pd_labels = [''staging''], pd_config = None\<rparr> st of
        (Inr created, st') \<Rightarrow>
          (Inr \<lparr>resp_version = pc_version created, resp_labels = [''staging''],
                resp_optimized_prompt = JStr ''help.'', resp_rollout_plan = None,
                resp_metrics = Some metrics\<rparr>, st')
      | (Inl e, st') \<Rightarrow>
          (Inl (HTTPException 500 (''Failed to store prompt in Langfuse: '' @ str_error e)),
           st'))
   \<and> ''token_reduction'' \<in> fst ` set metrics"
  by (simp add: post_optimize_def validate_OptimizeRequest_def optimize_prompt_def
      prompt_data_def optimized_prompt_def rollout_plan_def lower_keywords metrics_def
      split: prod.split sum.split)

text \<open>
  The theorem on an empty registry, which then holds the new version with that content.
\<close>

theorem greeting_end_to_end_witness:
  "post_optimize memory_lf
     \<lparr>req_name = ''greeting'', current_prompt = None,
      draft = \<lparr>draft_type = ''text'', draft_prompt = JStr ''Please help.'',
               draft_config = None\<rparr>,
      objective = ''reduce tokens'', commit_message = None,
      req_labels = [''staging''], rollout = None\<rparr>
     \<lparr>online = True, versions = []\<rparr>
   = (Inr \<lparr>resp_version = 1, resp_labels = [''staging''],
            resp_optimized_prompt = JStr ''help.'', resp_rollout_plan = None,
            resp_metrics = Some metrics\<rparr>,
      \<lparr>online = True,
       versions = [\<lparr>pc_name = ''greeting'', pc_version = 1, pc_prompt = JStr ''help.'',
                    pc_config = JDict [], pc_labels = [''staging'']\<rparr>]\<rparr>)"
  using greeting_end_to_end [of memory_lf "\<lparr>online = True, versions = []\<rparr>"]
  by (simp add: memory_lf_def memory_create_prompt_def Let_def)




text \<open>
  C7.  A rollout configuration whose percentage is below 0 or above 100 fails
  validation, and the endpoint answers with that \<open>ValidationError\<close>: no response and so
  no plan, and the registry state is the one before the call.
\<close>

theorem percentage_out_of_range_rejected:
  assumes "rollout request = Some c" and "percentage c < 0 \<or> 100 < percentage c"
  shows "validate_RolloutConfig c = Inl (ValidationError ''rollout.percentage'')
     \<and> post_optimize lf request st = (Inl (ValidationError ''rollout.percentage''), st)"
  using assms
  by (auto simp: post_optimize_def validate_OptimizeRequest_def validate_RolloutConfig_def)

text \<open>
  The theorem at the percentage 150.
\<close>

theorem percentage_out_of_range_rejected_witness:
  "post_optimize memory_lf
     \<lparr>req_name = ''greeting'', current_prompt = None,
      draft = \<lparr>draft_type = ''text'', draft_prompt = JStr ''Hello'', draft_config = None\<rparr>,
      objective = ''improve clarity'', commit_message = None,
      req_labels = [''production''],
      rollout = Some \<lparr>strategy = ''gradual'', percentage = 150,
                      evaluation_metric = ''success_rate'', threshold = 0.95\<rparr>\<rparr>
     \<lparr>online = True, versions = []\<rparr>
   = (Inl (ValidationError ''rollout.percentage''), \<lparr>online = True, versions = []\<rparr>)"
  using percentage_out_of_range_rejected
    [where lf = memory_lf and st = "\<lparr>online = True, versions = []\<rparr>"
       and c = "\<lparr>strategy = ''gradual'', percentage = 150,
                      evaluation_metric = ''success_rate'', threshold = 0.95\<rparr>"
       and request = "\<lparr>req_name = ''greeting'', current_prompt = None,
      draft = \<lparr>draft_type = ''text'', draft_prompt = JStr ''Hello'', draft_config = None\<rparr>,
      objective = ''improve clarity'', commit_message = None,
      req_labels = [''production''],
      rollout = Some \<lparr>strategy = ''gradual'', percentage = 150,
                      evaluation_metric = ''success_rate'', threshold = 0.95\<rparr>\<rparr>"]
  by simp

section \<open>The get and promote endpoints\<close>

text \<open>
  C8, as stated, fails.  With the registry offline the client raises a backend failure,
  and \<open>get_prompt\<close> reports it as a 404 not-found, although a version of the prompt
  carries the requested label.
\<close>

theorem backend_failure_reported_not_found_counterexample:
  "get_prompt memory_lf ''greeting'' (Some ''production'')
     \<lparr>online = False,
      versions = [\<lparr>pc_name = ''greeting'', pc_version = 1, pc_prompt = JStr ''Hello'',
                   pc_config = JDict [], pc_labels = [''production'']\<rparr>]\<rparr>
   = (Inl (HTTPException 404 ''Prompt not found: greeting (label: production)''),
      \<lparr>online = False,
       versions = [\<lparr>pc_name = ''greeting'', pc_version = 1, pc_prompt = JStr ''Hello'',
                    pc_config = JDict [], pc_labels = [''production'']\<rparr>]\<rparr>)
   \<and> lf_get_prompt memory_lf ''greeting'' (Some ''production'')
     \<lparr>online = False,
      versions = [\<lparr>pc_name = ''greeting'', pc_version = 1, pc_prompt = JStr ''Hello'',
                   pc_config = JDict [], pc_labels = [''production'']\<rparr>]\<rparr>
   = (Inl (BackendFailure ''connection refused''),
      \<lparr>online = False,
       versions = [\<lparr>pc_name = ''greeting'', pc_version = 1, pc_prompt = JStr ''Hello'',
                    pc_config = JDict [], pc_labels = [''production'']\<rparr>]\<rparr>)"
  by (simp add: get_prompt_def memory_lf_def memory_get_prompt_def)

text \<open>
  C8, amended.  \<open>get_prompt\<close> fails exactly when the client's \<open>get_prompt\<close>
  raises, and every such failure, not-found or not, is reported as the same 404.
\<close>

theorem get_prompt_not_found_on_any_failure:
  "(isl (fst (get_prompt lf name label st)) \<longleftrightarrow> isl (fst (lf_get_prompt lf name label st)))
   \<and> (\<forall>e. fst (lf_get_prompt lf name label st) = Inl e \<longrightarrow>
          fst (get_prompt lf name label st)
          = Inl (HTTPException 404
                  (''Prompt not found: '' @ name @ '' (label: '' @ str_optional label @ '')'')))"
  by (simp add: get_prompt_def split: prod.split sum.split)

text \<open>
  The amended statement when no version carries the label.
\<close>

theorem get_prompt_not_found_on_any_failure_witness:
  "fst (get_prompt memory_lf ''greeting'' (Some ''production'')
     \<lparr>online = True,
      versions = [\<lparr>pc_name = ''greeting'', pc_version = 1, pc_prompt = JStr ''Hello'',
                   pc_config = JDict [], pc_labels = [''staging'']\<rparr>]\<rparr>)
   = Inl (HTTPException 404 ''Prompt not found: greeting (label: production)'')
   \<and> fst (lf_get_prompt memory_lf ''greeting'' (Some ''production'')
     \<lparr>online = True,
      versions = [\<lparr>pc_name = ''greeting'', pc_version = 1, pc_prompt = JStr ''Hello'',
                   pc_config = JDict [], pc_labels = [''staging'']\<rparr>]\<rparr>)
   = Inl (NotFound ''Prompt not found: greeting'')"
proof -
  let ?r = "\<lparr>online = True,
      versions = [\<lparr>pc_name = ''greeting'', pc_version = 1, pc_prompt = JStr ''Hello'',
                   pc_config = JDict [], pc_labels = [''staging'']\<rparr>]\<rparr>"
  have h: "fst (lf_get_prompt memory_lf ''greeting'' (Some ''production'') ?r)
           = Inl (NotFound ''Prompt not found: greeting'')"
    by (simp add: memory_lf_def memory_get_prompt_def)
  from get_prompt_not_found_on_any_failure
         [of memory_lf "''greeting''" "Some ''production''" ?r] h
  show ?thesis by simp
qed

text \<open>
  The promote endpoint only reads: whatever the client, the registry state after it is the
  state after the one \<open>get_prompt\<close> call.
\<close>

lemma promote_rollout_only_reads:
  "snd (promote_rollout lf name from_label to_label st)
   = snd (lf_get_prompt lf name (Some from_label) st)"
  by (simp add: promote_rollout_def split: prod.split sum.split)

text \<open>
  C9 on a registry whose only version of \<open>greeting\<close> is labelled \<open>staging\<close>.
  Promoting to \<open>production\<close> answers with version 1 and the label \<open>production\<close>, and
  leaves the registry as it was: the version still carries \<open>staging\<close> only, and getting
  the prompt by the label \<open>production\<close> afterwards fails.
\<close>

theorem promote_leaves_registry_unchanged:
  "promote_rollout memory_lf ''greeting'' ''staging'' ''production''
     \<lparr>online = True,
      versions = [\<lparr>pc_name = ''greeting'', pc_version = 1, pc_prompt = JStr ''Hello'',
                   pc_config = JDict [], pc_labels = [''staging'']\<rparr>]\<rparr>
   = (Inr \<lparr>message = ''Prompt greeting promoted from staging to production'',
            promoted_version = 1, promoted_labels = [''production'']\<rparr>,
      \<lparr>online = True,
       versions = [\<lparr>pc_name = ''greeting'', pc_version = 1, pc_prompt = JStr ''Hello'',
                    pc_config = JDict [], pc_labels = [''staging'']\<rparr>]\<rparr>)
   \<and> fst (get_prompt memory_lf ''greeting'' (Some ''production'')
       (snd (promote_rollout memory_lf ''greeting'' ''staging'' ''production''
          \<lparr>online = True,
           versions = [\<lparr>pc_name = ''greeting'', pc_version = 1, pc_prompt = JStr ''Hello'',
                        pc_config = JDict [], pc_labels = [''staging'']\<rparr>]\<rparr>)))
     = Inl (HTTPException 404 ''Prompt not found: greeting (label: production)'')"
  by (simp add: promote_rollout_def get_prompt_def memory_lf_def memory_get_prompt_def Let_def)

end
